theory Spec2Isabelle
  imports Complex_Main "HOL-Library.AList"
begin

unbundle bit_operations_syntax

section \<open>Syntax-tree spans and the wildcard handler of the hover and completion walks\<close>

text \<open>
  A span of the parser: byte offsets \<open>start\<close> and \<open>end\<close> and the syntax context. The
  offsets are integral JavaScript numbers far below \<open>2^53\<close>, so they are integers here.
\<close>

record span =
  span_start :: int
  span_end :: int
  ctxt :: int

text \<open>
  What the wildcard handler reads of a node: its \<open>type\<close> tag and, when the node has one,
  its \<open>span\<close> (\<open>"span" in node\<close>).
\<close>

record walk_node =
  node_type :: string
  node_span :: "span option"

text \<open>What a handler hands back to the walker: \<open>false\<close>, or nothing.\<close>

datatype handler_return = ReturnFalse | ReturnUndefined

text \<open>
  \<open>hover.ts\<close>, the \<open>"*"\<close> handler of \<open>onHover\<close>:
  \<^verbatim>\<open>if ("span" in node && node.type !== "VariableDeclaration" &&
      paramByte < node.span.start - moduleStart &&
      paramByte > node.span.end - moduleStart) return false;\<close>
\<close>

definition hover_star :: "int \<Rightarrow> int \<Rightarrow> walk_node \<Rightarrow> handler_return" where
  "hover_star paramByte moduleStart node =
     (case node_span node of
        None \<Rightarrow> ReturnUndefined
      | Some sp \<Rightarrow>
          if node_type node \<noteq> ''VariableDeclaration''
             \<and> paramByte < span_start sp - moduleStart
             \<and> paramByte > span_end sp - moduleStart
          then ReturnFalse else ReturnUndefined)"

text \<open>\<open>completions.ts\<close>, the \<open>"*"\<close> handler of \<open>onCompletion\<close>: the same test.\<close>

definition completion_star :: "int \<Rightarrow> int \<Rightarrow> walk_node \<Rightarrow> handler_return" where
  "completion_star paramByte moduleStart node =
     (case node_span node of
        None \<Rightarrow> ReturnUndefined
      | Some sp \<Rightarrow>
          if node_type node \<noteq> ''VariableDeclaration''
             \<and> paramByte < span_start sp - moduleStart
             \<and> paramByte > span_end sp - moduleStart
          then ReturnFalse else ReturnUndefined)"

text \<open>The skip condition of both handlers, on its own.\<close>

definition star_skip :: "int \<Rightarrow> int \<Rightarrow> span \<Rightarrow> bool" where
  "star_skip paramByte moduleStart sp \<longleftrightarrow>
     paramByte < span_start sp - moduleStart \<and> paramByte > span_end sp - moduleStart"

text \<open>A node whose span, when it has one, does not start after its end.\<close>

definition span_ordered :: "walk_node \<Rightarrow> bool" where
  "span_ordered node \<longleftrightarrow>
     (case node_span node of None \<Rightarrow> True | Some sp \<Rightarrow> span_start sp \<le> span_end sp)"

section \<open>The data of the partial evaluator\<close>

subsection \<open>Values and results\<close>

text \<open>
  A JavaScript number is an IEEE-754 double. Every double is \<open>NaN\<close>, an infinity, the
  negative zero or a rational number, so the values are represented exactly; \<open>Fin 0\<close> is
  the positive zero. What needs rounding (the arithmetic operators, reading a number from
  a string, printing one) is left to the host parameters below.
\<close>

datatype num = NaN | PInf | NInf | NegZero | Fin rat

text \<open>
  \<open>InnerType\<close> and \<open>ResultType\<close> of \<open>evaluate.ts\<close>. A string is a sequence of code units
  (those below 256 can be written here). A folded object carries its prototype when it is
  not \<open>Object.prototype\<close> (assigning to the key \<open>__proto__\<close> sets it) and its own entries
  as an association list with one entry for a key (the order in which the host enumerates
  integer-like keys is not represented; nothing in the evaluator depends on it). Two kinds of host object reach folded values through property reads
  although \<open>InnerType\<close> does not list them: a \<open>ResultType\<close> object itself (\<open>VRes\<close>, read out
  of a folded array or object) and an object of the host's own such as a built-in
  function (\<open>VHost\<close>, named by an opaque handle).

  The non-static result is \<open>{value: undefined, static: false}\<close> at every place the
  evaluator builds it, so it carries no value here.
\<close>

datatype val =
    VStr string
  | VNum num
  | VBool bool
  | VNull
  | VUndef
  | VRegExp string string
  | VArr "res list"
  | VObj "res option" "(string \<times> val) list"
  | VBigInt int
  | VRes res
  | VHost nat
and res =
    NonStatic
  | Static val span
  | StaticId string span

subsection \<open>Syntax nodes\<close>

datatype binop =
    EqEq | NotEq | EqEqEq | NotEqEq | Lt | LtEq | Gt | GtEq
  | LShift | RShift | ZeroFillRShift
  | Add | Sub | Mul | Div | Mod
  | BitOr | BitXor | BitAnd
  | LogicalOr | LogicalAnd | In | InstanceOf | Exp | NullishCoalescing

datatype unop = Minus | Plus | Bang | Tilde | TypeOf | Void | Delete

text \<open>
  The node kinds that \<open>evaluate\<close> answers with the non-static result whatever they hold;
  \<open>UnlistedNode\<close> stands for every kind that reaches the \<open>default\<close> branch, which the
  callee kinds \<open>Super\<close> and \<open>Import\<close> do too.
\<close>

datatype other_kind =
    ArrowFunctionExpression | FunctionExpression
  | JSXElement | JSXFragment | JSXEmptyExpression | JSXMemberExpression
  | JSXNamespacedName | JSXText
  | ThisExpression | SuperPropExpression | TaggedTemplateExpression
  | NewExpression | ClassExpression | OptionalChainingExpression
  | UpdateExpression | YieldExpression | MetaProperty
  | Super | Import | UnlistedNode

datatype ts_kind =
  TsAsExpression | TsNonNullExpression | TsConstAssertion | TsTypeAssertion | TsInstantiation

datatype tpl_elem = TplElem (cooked: "string option") (raw: string) (tpl_span: span)

text \<open>
  The nodes \<open>evaluate\<close> receives. An array element is absent (a hole) or an expression
  with its spread mark; the arguments of a call have the same shape, since the evaluator
  hands them to \<open>processArrayExpression\<close> as the elements of an array. A template literal
  may lack \<open>expressions\<close> or \<open>quasis\<close> (the type-level node of the same tag), which the
  code tests with \<open>in\<close>. Only the parts \<open>evaluate\<close> reads are kept.
\<close>

datatype expr =
    StringLiteral string span
  | NumericLiteral num span
  | BooleanLiteral bool span
  | BigIntLiteral int span
  | NullLiteral span
  | RegExpLiteral string string span
  | Invalid span
  | Identifier string span
  | ArrayExpression "(bool \<times> expr) option list" span
  | ObjectExpression "property list" span
  | AwaitExpression expr
  | BinaryExpression binop expr expr span
  | TsWrapper ts_kind expr
  | ParenthesisExpression expr
  | UnaryExpression unop expr span
  | AssignmentExpression expr
  | ConditionalExpression expr expr expr
  | TemplateLiteral "expr list option" "tpl_elem list option" span
  | TemplateElement tpl_elem
  | CallExpression expr "(bool \<times> expr) option list" span
  | Computed expr
  | MemberExpression expr expr span
  | PrivateName expr
  | SequenceExpression "expr list"
  | Other other_kind
and property =
    SpreadElement expr
  | KeyValueProperty expr expr
  | AssignmentProperty expr expr
  | GetterProperty
  | SetterProperty
  | MethodProperty
  | PropIdentifier string span

text \<open>
  What the evaluator raises: its own three errors, and the host's exceptions that an
  operator of the code can throw.
\<close>

datatype error =
  InvalidExpression | UnknownBinaryOperator | UnknownUnaryOperator
  | TypeError | RangeError | SyntaxError

subsection \<open>What the evaluator is given\<close>

text \<open>
  The two methods of the state manager that \<open>evaluate\<close> calls. The class is not among
  the sources, so the methods are parameters.
\<close>

record state_manager =
  verifyStylexIdentifier :: "string \<Rightarrow> bool"
  verifyNamedImport :: "string \<Rightarrow> string option"

text \<open>
  The parts of the host language that are not modelled here, as parameters:
  \<^item> \<open>num_binop\<close>: the arithmetic, shift and bit operators on two numbers (IEEE-754);
  \<^item> \<open>str_to_num\<close>, \<open>num_to_str\<close>, \<open>str_to_bigint\<close>: the conversions between strings and
    numeric values;
  \<^item> \<open>regexp_rejected\<close>: whether \<open>new RegExp(pattern, flags)\<close> throws; \<open>regexp_to_str\<close>:
    the text of a regular expression;
  \<^item> \<open>proto_get\<close>, \<open>proto_has\<close>: a property that is not the value's own, looked up in
    the built-in prototypes (reading one may run an accessor of the host, which may
    throw);
  \<^item> \<open>host_callable\<close>, \<open>host_to_prim\<close>, \<open>host_instanceof\<close>: the behaviour of the host's
    own objects.
\<close>

record host =
  num_binop :: "binop \<Rightarrow> num \<Rightarrow> num \<Rightarrow> num"
  str_to_num :: "string \<Rightarrow> num"
  num_to_str :: "num \<Rightarrow> string"
  str_to_bigint :: "string \<Rightarrow> int option"
  regexp_rejected :: "string \<Rightarrow> string \<Rightarrow> bool"
  regexp_to_str :: "string \<Rightarrow> string \<Rightarrow> string"
  proto_get :: "val \<Rightarrow> string \<Rightarrow> error + val"
  proto_has :: "val \<Rightarrow> string \<Rightarrow> bool"
  host_callable :: "nat \<Rightarrow> bool"
  host_to_prim :: "val \<Rightarrow> error + val"
  host_instanceof :: "val \<Rightarrow> nat \<Rightarrow> error + bool"

section \<open>The host operators the evaluator applies to folded values\<close>

text \<open>
  \<open>evaluate\<close> folds an operator by applying the host's own operator to the operand
  values. The definitions of this section follow the abstract operations of the language
  standard on the values above; rounding and the built-in objects stay with the host
  parameters.
\<close>

subsection \<open>Types, truth and conversion to primitives\<close>

fun js_typeof :: "host \<Rightarrow> val \<Rightarrow> string" where
  "js_typeof h (VStr s) = ''string''"
| "js_typeof h (VNum n) = ''number''"
| "js_typeof h (VBool b) = ''boolean''"
| "js_typeof h VUndef = ''undefined''"
| "js_typeof h (VBigInt i) = ''bigint''"
| "js_typeof h (VHost n) = (if host_callable h n then ''function'' else ''object'')"
| "js_typeof h v = ''object''"

datatype jstype = TUndefined | TNull | TBoolean | TString | TNumber | TBigInt | TObject

fun type_of :: "val \<Rightarrow> jstype" where
  "type_of VUndef = TUndefined"
| "type_of VNull = TNull"
| "type_of (VBool b) = TBoolean"
| "type_of (VStr s) = TString"
| "type_of (VNum n) = TNumber"
| "type_of (VBigInt i) = TBigInt"
| "type_of v = TObject"

text \<open>\<open>v == null\<close>: true of \<open>null\<close> and \<open>undefined\<close> only.\<close>

fun nullish :: "val \<Rightarrow> bool" where
  "nullish VNull = True"
| "nullish VUndef = True"
| "nullish v = False"

fun truthy :: "val \<Rightarrow> bool" where
  "truthy (VBool b) = b"
| "truthy (VNum n) = (n \<noteq> NaN \<and> n \<noteq> NegZero \<and> n \<noteq> Fin 0)"
| "truthy (VStr s) = (s \<noteq> [])"
| "truthy (VBigInt i) = (i \<noteq> 0)"
| "truthy VNull = False"
| "truthy VUndef = False"
| "truthy v = True"

fun is_object :: "val \<Rightarrow> bool" where
  "is_object (VRegExp p f) = True"
| "is_object (VArr rs) = True"
| "is_object (VObj p kvs) = True"
| "is_object (VRes r) = True"
| "is_object (VHost n) = True"
| "is_object v = False"

text \<open>Decimal digits of a natural number, and the text of a bigint.\<close>

fun digits :: "nat \<Rightarrow> string" where
  "digits n = (if n < 10 then [''0123456789'' ! n]
               else digits (n div 10) @ [''0123456789'' ! (n mod 10)])"

declare digits.simps [simp del]

definition bigint_to_str :: "int \<Rightarrow> string" where
  "bigint_to_str i = (if i < 0 then CHR ''-'' # digits (nat (- i)) else digits (nat i))"

fun join_with :: "string \<Rightarrow> string list \<Rightarrow> string" where
  "join_with sep [] = []"
| "join_with sep [x] = x"
| "join_with sep (x # y # ys) = x @ sep @ join_with sep (y # ys)"

definition is_host :: "val option \<Rightarrow> bool" where
  "is_host x = (case x of Some (VHost n) \<Rightarrow> True | _ \<Rightarrow> False)"

text \<open>
  \<open>ToPrimitive\<close>. None of the objects built by the evaluator defines a conversion of its
  own, so the inherited \<open>valueOf\<close> and \<open>toString\<close> decide:
  \<^item> an array joins its elements with commas, and each element is a result object, whose
    text is \<open>[object Object]\<close>;
  \<^item> a folded object has the text \<open>[object Object]\<close>, unless it has an own entry
    \<open>toString\<close>: the entry is a result object, which cannot be called, the inherited
    \<open>valueOf\<close> returns the object itself, and the conversion throws a \<open>TypeError\<close>. An
    own \<open>valueOf\<close> entry is skipped for the same reason. Should such an entry hold a
    host object, the host decides.
\<close>

fun to_primitive :: "host \<Rightarrow> val \<Rightarrow> error + val" where
  "to_primitive h (VArr rs) =
     Inr (VStr (join_with '','' (replicate (length rs) ''[object Object]'')))"
| "to_primitive h (VRes r) = Inr (VStr ''[object Object]'')"
| "to_primitive h (VRegExp p f) = Inr (VStr (regexp_to_str h p f))"
| "to_primitive h (VObj p kvs) =
     (if is_host (map_of kvs ''toString'') \<or> is_host (map_of kvs ''valueOf'')
      then host_to_prim h (VObj p kvs)
      else if map_of kvs ''toString'' = None then Inr (VStr ''[object Object]'')
      else Inl TypeError)"
| "to_primitive h (VHost n) = host_to_prim h (VHost n)"
| "to_primitive h v = Inr v"

fun prim_to_string :: "host \<Rightarrow> val \<Rightarrow> error + string" where
  "prim_to_string h (VStr s) = Inr s"
| "prim_to_string h (VNum n) = Inr (num_to_str h n)"
| "prim_to_string h (VBool b) = Inr (if b then ''true'' else ''false'')"
| "prim_to_string h VNull = Inr ''null''"
| "prim_to_string h VUndef = Inr ''undefined''"
| "prim_to_string h (VBigInt i) = Inr (bigint_to_str i)"
| "prim_to_string h v = Inl TypeError"

definition to_string :: "host \<Rightarrow> val \<Rightarrow> error + string" where
  "to_string h v =
     (case to_primitive h v of Inl e \<Rightarrow> Inl e | Inr p \<Rightarrow> prim_to_string h p)"

fun prim_to_number :: "host \<Rightarrow> val \<Rightarrow> error + num" where
  "prim_to_number h VUndef = Inr NaN"
| "prim_to_number h VNull = Inr (Fin 0)"
| "prim_to_number h (VBool b) = Inr (Fin (if b then 1 else 0))"
| "prim_to_number h (VNum n) = Inr n"
| "prim_to_number h (VStr s) = Inr (str_to_num h s)"
| "prim_to_number h v = Inl TypeError"

definition to_number :: "host \<Rightarrow> val \<Rightarrow> error + num" where
  "to_number h v =
     (case to_primitive h v of Inl e \<Rightarrow> Inl e | Inr p \<Rightarrow> prim_to_number h p)"

definition to_numeric :: "host \<Rightarrow> val \<Rightarrow> error + val" where
  "to_numeric h v =
     (case to_primitive h v of
        Inl e \<Rightarrow> Inl e
      | Inr (VBigInt i) \<Rightarrow> Inr (VBigInt i)
      | Inr p \<Rightarrow> (case prim_to_number h p of Inl e \<Rightarrow> Inl e | Inr n \<Rightarrow> Inr (VNum n)))"

subsection \<open>Equality and order\<close>

text \<open>
  Numbers are compared through their place on the extended line: \<open>NaN\<close> has none, the
  two zeros share one.
\<close>

fun num_rank :: "num \<Rightarrow> (nat \<times> rat) option" where
  "num_rank NaN = None"
| "num_rank NInf = Some (0, 0)"
| "num_rank NegZero = Some (1, 0)"
| "num_rank (Fin r) = Some (1, r)"
| "num_rank PInf = Some (2, 0)"

definition bigint_rank :: "int \<Rightarrow> (nat \<times> rat) option" where
  "bigint_rank i = Some (1, of_int i)"

definition rank_lt :: "(nat \<times> rat) option \<Rightarrow> (nat \<times> rat) option \<Rightarrow> bool option" where
  "rank_lt a b =
     (case a of None \<Rightarrow> None
      | Some (i, x) \<Rightarrow>
          (case b of None \<Rightarrow> None
           | Some (j, y) \<Rightarrow> Some (i < j \<or> (i = j \<and> x < y))))"

definition rank_eq :: "(nat \<times> rat) option \<Rightarrow> (nat \<times> rat) option \<Rightarrow> bool" where
  "rank_eq a b = (a \<noteq> None \<and> a = b)"

text \<open>Strings are ordered by their code units.\<close>

fun str_lt :: "string \<Rightarrow> string \<Rightarrow> bool" where
  "str_lt [] [] = False"
| "str_lt [] (y # ys) = True"
| "str_lt (x # xs) [] = False"
| "str_lt (x # xs) (y # ys) =
     (if x = y then str_lt xs ys else (of_char x :: nat) < of_char y)"

text \<open>
  \<open>===\<close>. Objects are equal when they are the same object. The two operands of a binary
  expression are folded by two calls of \<open>evaluate\<close> on disjoint subtrees, and every array,
  object, regular expression and result object is built afresh by the call that returns
  it, so two such operands are never the same object; host objects are shared and
  compared by their handles.
\<close>

definition strict_eq :: "val \<Rightarrow> val \<Rightarrow> bool" where
  "strict_eq x y =
     (case x of
        VStr a \<Rightarrow> (case y of VStr b \<Rightarrow> a = b | _ \<Rightarrow> False)
      | VNum a \<Rightarrow> (case y of VNum b \<Rightarrow> rank_eq (num_rank a) (num_rank b) | _ \<Rightarrow> False)
      | VBool a \<Rightarrow> (case y of VBool b \<Rightarrow> a = b | _ \<Rightarrow> False)
      | VNull \<Rightarrow> (case y of VNull \<Rightarrow> True | _ \<Rightarrow> False)
      | VUndef \<Rightarrow> (case y of VUndef \<Rightarrow> True | _ \<Rightarrow> False)
      | VBigInt a \<Rightarrow> (case y of VBigInt b \<Rightarrow> a = b | _ \<Rightarrow> False)
      | VHost a \<Rightarrow> (case y of VHost b \<Rightarrow> a = b | _ \<Rightarrow> False)
      | _ \<Rightarrow> False)"

fun unbool :: "val \<Rightarrow> val" where
  "unbool (VBool b) = VNum (Fin (if b then 1 else 0))"
| "unbool v = v"

definition numeric_eq :: "host \<Rightarrow> val \<Rightarrow> val \<Rightarrow> bool" where
  "numeric_eq h x y =
     (case x of
        VNum a \<Rightarrow>
          (case y of
             VNum b \<Rightarrow> rank_eq (num_rank a) (num_rank b)
           | VStr s \<Rightarrow> rank_eq (num_rank a) (num_rank (str_to_num h s))
           | VBigInt i \<Rightarrow> rank_eq (num_rank a) (bigint_rank i)
           | _ \<Rightarrow> False)
      | VStr s \<Rightarrow>
          (case y of
             VNum b \<Rightarrow> rank_eq (num_rank (str_to_num h s)) (num_rank b)
           | VBigInt i \<Rightarrow> (case str_to_bigint h s of None \<Rightarrow> False | Some n \<Rightarrow> i = n)
           | _ \<Rightarrow> False)
      | VBigInt i \<Rightarrow>
          (case y of
             VStr s \<Rightarrow> (case str_to_bigint h s of None \<Rightarrow> False | Some n \<Rightarrow> i = n)
           | VNum n \<Rightarrow> rank_eq (bigint_rank i) (num_rank n)
           | _ \<Rightarrow> False)
      | _ \<Rightarrow> False)"

text \<open>\<open>==\<close> on two primitives, then on any two values.\<close>

definition loose_eq_prim :: "host \<Rightarrow> val \<Rightarrow> val \<Rightarrow> bool" where
  "loose_eq_prim h x y =
     (if type_of x = type_of y then strict_eq x y
      else if nullish x \<and> nullish y then True
      else if nullish x \<or> nullish y then False
      else numeric_eq h (unbool x) (unbool y))"

definition loose_eq :: "host \<Rightarrow> val \<Rightarrow> val \<Rightarrow> error + bool" where
  "loose_eq h x y =
     (if is_object x \<and> is_object y then Inr (strict_eq x y)
      else if is_object x then
        (if nullish y then Inr False
         else case to_primitive h x of
                Inl e \<Rightarrow> Inl e | Inr px \<Rightarrow> Inr (loose_eq_prim h px y))
      else if is_object y then
        (if nullish x then Inr False
         else case to_primitive h y of
                Inl e \<Rightarrow> Inl e | Inr py \<Rightarrow> Inr (loose_eq_prim h x py))
      else Inr (loose_eq_prim h x y))"

text \<open>
  \<open>IsLessThan\<close>: \<open>None\<close> is the standard's \<open>undefined\<close> (an operand is \<open>NaN\<close>). The four
  relational operators read it as the standard says.
\<close>

fun prim_rank :: "host \<Rightarrow> val \<Rightarrow> (nat \<times> rat) option" where
  "prim_rank h (VNum n) = num_rank n"
| "prim_rank h (VBigInt i) = bigint_rank i"
| "prim_rank h (VStr s) = num_rank (str_to_num h s)"
| "prim_rank h (VBool b) = Some (1, if b then 1 else 0)"
| "prim_rank h VNull = Some (1, 0)"
| "prim_rank h v = None"

definition prim_less_than :: "host \<Rightarrow> val \<Rightarrow> val \<Rightarrow> bool option" where
  "prim_less_than h x y =
     (case (x, y) of
        (VStr a, VStr b) \<Rightarrow> Some (str_lt a b)
      | (VBigInt i, VStr s) \<Rightarrow>
          (case str_to_bigint h s of None \<Rightarrow> None | Some n \<Rightarrow> Some (i < n))
      | (VStr s, VBigInt i) \<Rightarrow>
          (case str_to_bigint h s of None \<Rightarrow> None | Some n \<Rightarrow> Some (n < i))
      | _ \<Rightarrow> rank_lt (prim_rank h x) (prim_rank h y))"

definition is_less_than :: "host \<Rightarrow> bool \<Rightarrow> val \<Rightarrow> val \<Rightarrow> error + bool option" where
  "is_less_than h leftFirst x y =
     (if leftFirst then
        (case to_primitive h x of Inl e \<Rightarrow> Inl e
         | Inr px \<Rightarrow> (case to_primitive h y of Inl e \<Rightarrow> Inl e
                      | Inr py \<Rightarrow> Inr (prim_less_than h px py)))
      else
        (case to_primitive h y of Inl e \<Rightarrow> Inl e
         | Inr py \<Rightarrow> (case to_primitive h x of Inl e \<Rightarrow> Inl e
                      | Inr px \<Rightarrow> Inr (prim_less_than h px py))))"

definition js_lt :: "host \<Rightarrow> val \<Rightarrow> val \<Rightarrow> error + bool" where
  "js_lt h a b = map_sum id (\<lambda>r. r = Some True) (is_less_than h True a b)"

definition js_gt :: "host \<Rightarrow> val \<Rightarrow> val \<Rightarrow> error + bool" where
  "js_gt h a b = map_sum id (\<lambda>r. r = Some True) (is_less_than h False b a)"

definition js_le :: "host \<Rightarrow> val \<Rightarrow> val \<Rightarrow> error + bool" where
  "js_le h a b = map_sum id (\<lambda>r. r = Some False) (is_less_than h False b a)"

definition js_ge :: "host \<Rightarrow> val \<Rightarrow> val \<Rightarrow> error + bool" where
  "js_ge h a b = map_sum id (\<lambda>r. r = Some False) (is_less_than h True a b)"

subsection \<open>Properties\<close>

text \<open>
  The own properties of the values the evaluator builds. A result object has the fields
  its literal gives it; a span is an object of three numbers.
\<close>

definition span_val :: "span \<Rightarrow> val" where
  "span_val sp =
     VObj None [(''start'', VNum (Fin (of_int (span_start sp)))),
                (''end'', VNum (Fin (of_int (span_end sp)))),
                (''ctxt'', VNum (Fin (of_int (ctxt sp))))]"

fun res_fields :: "res \<Rightarrow> (string \<times> val) list" where
  "res_fields NonStatic = [(''value'', VUndef), (''static'', VBool False)]"
| "res_fields (Static v sp) =
     [(''value'', v), (''static'', VBool True), (''span'', span_val sp)]"
| "res_fields (StaticId i sp) =
     [(''id'', VStr i), (''static'', VBool True), (''span'', span_val sp)]"

text \<open>The index a property key denotes, when it is the canonical text of one below \<open>n\<close>.\<close>

definition index_of_key :: "string \<Rightarrow> nat \<Rightarrow> nat option" where
  "index_of_key k n = find (\<lambda>i. digits i = k) [0..<n]"

definition length_val :: "'a list \<Rightarrow> val" where
  "length_val xs = VNum (Fin (of_nat (length xs)))"

fun own_get :: "val \<Rightarrow> string \<Rightarrow> val option" where
  "own_get (VStr s) k =
     (if k = ''length'' then Some (length_val s)
      else map_option (\<lambda>i. VStr [s ! i]) (index_of_key k (length s)))"
| "own_get (VArr rs) k =
     (if k = ''length'' then Some (length_val rs)
      else map_option (\<lambda>i. VRes (rs ! i)) (index_of_key k (length rs)))"
| "own_get (VObj p kvs) k = map_of kvs k"
| "own_get (VRes r) k = map_of (res_fields r) k"
| "own_get (VRegExp p f) k = (if k = ''lastIndex'' then Some (VNum (Fin 0)) else None)"
| "own_get v k = None"

text \<open>
  A folded object whose prototype was set to a result object inherits that object's
  fields; everything further up the chain is the host's.
\<close>

definition inherited_get :: "val \<Rightarrow> string \<Rightarrow> val option" where
  "inherited_get v k =
     (case v of VObj (Some r) kvs \<Rightarrow> map_of (res_fields r) k | _ \<Rightarrow> None)"

text \<open>The property read \<open>v[k]\<close> on a value that is neither \<open>null\<close> nor \<open>undefined\<close>.\<close>

definition js_get :: "host \<Rightarrow> val \<Rightarrow> string \<Rightarrow> error + val" where
  "js_get h v k =
     (case own_get v k of
        Some x \<Rightarrow> Inr x
      | None \<Rightarrow> (case inherited_get v k of Some x \<Rightarrow> Inr x | None \<Rightarrow> proto_get h v k))"

definition has_property :: "host \<Rightarrow> val \<Rightarrow> string \<Rightarrow> bool" where
  "has_property h v k \<longleftrightarrow>
     own_get v k \<noteq> None \<or> inherited_get v k \<noteq> None \<or> proto_has h v k"

text \<open>
  \<open>l in r\<close> throws when \<open>r\<close> is not an object, or when \<open>l\<close> has no property key;
  \<open>l instanceof r\<close> throws unless \<open>r\<close> is callable, which only a host object can be.
\<close>

definition js_in :: "host \<Rightarrow> val \<Rightarrow> val \<Rightarrow> error + bool" where
  "js_in h l r =
     (if \<not> is_object r then Inl TypeError
      else case to_string h l of
             Inl e \<Rightarrow> Inl e
           | Inr k \<Rightarrow> Inr (has_property h r k))"

definition js_instanceof :: "host \<Rightarrow> val \<Rightarrow> val \<Rightarrow> error + bool" where
  "js_instanceof h l r =
     (case r of VHost n \<Rightarrow> host_instanceof h l n | _ \<Rightarrow> Inl TypeError)"

subsection \<open>Logical and arithmetic operators\<close>

definition js_and :: "val \<Rightarrow> val \<Rightarrow> val" where
  "js_and l r = (if truthy l then r else l)"

definition js_or :: "val \<Rightarrow> val \<Rightarrow> val" where
  "js_or l r = (if truthy l then l else r)"

definition js_nullish_coalesce :: "val \<Rightarrow> val \<Rightarrow> val" where
  "js_nullish_coalesce l r = (if nullish l then r else l)"

text \<open>
  The operators on two bigints. Division and remainder truncate towards zero and throw a
  \<open>RangeError\<close> on a zero divisor, as does a negative exponent; the unsigned shift is a
  \<open>TypeError\<close>; a shift by a negative count shifts the other way.
\<close>

definition trunc_div :: "int \<Rightarrow> int \<Rightarrow> int" where
  "trunc_div a b = sgn a * sgn b * (\<bar>a\<bar> div \<bar>b\<bar>)"

definition trunc_rem :: "int \<Rightarrow> int \<Rightarrow> int" where
  "trunc_rem a b = sgn a * (\<bar>a\<bar> mod \<bar>b\<bar>)"

definition bigint_shl :: "int \<Rightarrow> int \<Rightarrow> int" where
  "bigint_shl a b = (if 0 \<le> b then a * 2 ^ nat b else a div 2 ^ nat (- b))"

fun bigint_binop :: "binop \<Rightarrow> int \<Rightarrow> int \<Rightarrow> error + int" where
  "bigint_binop LShift a b = Inr (bigint_shl a b)"
| "bigint_binop RShift a b = Inr (bigint_shl a (- b))"
| "bigint_binop ZeroFillRShift a b = Inl TypeError"
| "bigint_binop Add a b = Inr (a + b)"
| "bigint_binop Sub a b = Inr (a - b)"
| "bigint_binop Mul a b = Inr (a * b)"
| "bigint_binop Div a b = (if b = 0 then Inl RangeError else Inr (trunc_div a b))"
| "bigint_binop Mod a b = (if b = 0 then Inl RangeError else Inr (trunc_rem a b))"
| "bigint_binop Exp a b = (if b < 0 then Inl RangeError else Inr (a ^ nat b))"
| "bigint_binop BitOr a b = Inr (a OR b)"
| "bigint_binop BitXor a b = Inr (a XOR b)"
| "bigint_binop BitAnd a b = Inr (a AND b)"
| "bigint_binop op a b = Inl UnknownBinaryOperator"

text \<open>
  \<open>lr[0] op lr[1]\<close> for an arithmetic, shift or bit operator on two numbers, two strings
  or two bigints (the code has checked that the operands are alike). Strings are
  concatenated by \<open>+\<close> and converted to numbers by every other operator.
\<close>

definition js_arith :: "host \<Rightarrow> binop \<Rightarrow> val \<Rightarrow> val \<Rightarrow> error + val" where
  "js_arith h op l r =
     (case (l, r) of
        (VNum a, VNum b) \<Rightarrow> Inr (VNum (num_binop h op a b))
      | (VStr a, VStr b) \<Rightarrow>
          Inr (if op = Add then VStr (a @ b)
               else VNum (num_binop h op (str_to_num h a) (str_to_num h b)))
      | (VBigInt a, VBigInt b) \<Rightarrow> map_sum id VBigInt (bigint_binop op a b)
      | _ \<Rightarrow> Inl TypeError)"

fun num_neg :: "num \<Rightarrow> num" where
  "num_neg NaN = NaN"
| "num_neg PInf = NInf"
| "num_neg NInf = PInf"
| "num_neg NegZero = Fin 0"
| "num_neg (Fin r) = (if r = 0 then NegZero else Fin (- r))"

text \<open>\<open>ToInt32\<close>: truncate, reduce modulo \<open>2^32\<close>, read as a signed 32-bit integer.\<close>

definition to_int32 :: "num \<Rightarrow> int" where
  "to_int32 n =
     (case n of
        Fin r \<Rightarrow>
          (let t = (if 0 \<le> r then \<lfloor>r\<rfloor> else \<lceil>r\<rceil>);
               m = t mod 2 ^ 32
           in if 2 ^ 31 \<le> m then m - 2 ^ 32 else m)
      | _ \<Rightarrow> 0)"

text \<open>
  \<open>Object.assign\<close> and \<open>accumulator[key] = value\<close>. The own enumerable properties of a
  value are the entries of a folded object, the indexed elements of an array or of a
  string and the fields of a result object; numbers, booleans, bigints, regular
  expressions and the built-in objects of the host have none. Assigning to the key
  \<open>__proto__\<close> calls the inherited setter: an object value becomes the prototype (the
  evaluator only ever assigns result objects), any other value is ignored, and no own
  entry is made.
\<close>

fun entries_of :: "val \<Rightarrow> (string \<times> val) list" where
  "entries_of (VObj p kvs) = kvs"
| "entries_of (VArr rs) = map (\<lambda>(i, r). (digits i, VRes r)) (enumerate 0 rs)"
| "entries_of (VStr s) = map (\<lambda>(i, c). (digits i, VStr [c])) (enumerate 0 s)"
| "entries_of (VRes r) = res_fields r"
| "entries_of v = []"

type_synonym accumulator = "res option \<times> (string \<times> val) list"

definition set_prop :: "accumulator \<Rightarrow> string \<Rightarrow> val \<Rightarrow> accumulator" where
  "set_prop acc k v =
     (if k = ''__proto__''
      then (case v of VRes r \<Rightarrow> (Some r, snd acc) | _ \<Rightarrow> acc)
      else (fst acc, AList.update k v (snd acc)))"

definition object_assign :: "accumulator \<Rightarrow> val \<Rightarrow> accumulator" where
  "object_assign acc v = foldl (\<lambda>a (k, x). set_prop a k x) acc (entries_of v)"

text \<open>
  \<open>values.join("")\<close>: \<open>null\<close> and \<open>undefined\<close> contribute nothing, every other value its
  text.
\<close>

fun js_join :: "host \<Rightarrow> val list \<Rightarrow> error + string" where
  "js_join h [] = Inr []"
| "js_join h (v # vs) =
     (case (if nullish v then Inr [] else to_string h v) of
        Inl e \<Rightarrow> Inl e
      | Inr s \<Rightarrow> (case js_join h vs of Inl e \<Rightarrow> Inl e | Inr t \<Rightarrow> Inr (s @ t)))"


section \<open>The partial evaluator\<close>

subsection \<open>Binary and unary operators\<close>

text \<open>
  The first \<open>switch\<close> of the \<open>BinaryExpression\<close> case. \<open>result\<close> starts out undefined and
  stays so when no case matches. The four relational cases answer \<open>false\<close> when an
  operand is \<open>null\<close> or \<open>undefined\<close> and apply the host's operator otherwise; \<open>in\<close> and
  \<open>instanceof\<close> run inside \<open>try\<close> and answer \<open>false\<close> in \<open>catch\<close>.
\<close>

definition relational ::
  "host \<Rightarrow> (host \<Rightarrow> val \<Rightarrow> val \<Rightarrow> error + bool) \<Rightarrow> val \<Rightarrow> val \<Rightarrow> error + val" where
  "relational h cmp l r =
     (if nullish l \<or> nullish r then Inr (VBool False)
      else map_sum id VBool (cmp h l r))"

definition catch_false :: "error + bool \<Rightarrow> val" where
  "catch_false m = (case m of Inl e \<Rightarrow> VBool False | Inr b \<Rightarrow> VBool b)"

fun first_switch :: "host \<Rightarrow> binop \<Rightarrow> val \<Rightarrow> val \<Rightarrow> error + val" where
  "first_switch h EqEq l r = map_sum id VBool (loose_eq h l r)"
| "first_switch h NotEq l r = map_sum id (\<lambda>b. VBool (\<not> b)) (loose_eq h l r)"
| "first_switch h EqEqEq l r = Inr (VBool (strict_eq l r))"
| "first_switch h NotEqEq l r = Inr (VBool (\<not> strict_eq l r))"
| "first_switch h Lt l r = relational h js_lt l r"
| "first_switch h LtEq l r = relational h js_le l r"
| "first_switch h Gt l r = relational h js_gt l r"
| "first_switch h GtEq l r = relational h js_ge l r"
| "first_switch h In l r = Inr (catch_false (js_in h l r))"
| "first_switch h InstanceOf l r = Inr (catch_false (js_instanceof h l r))"
| "first_switch h LogicalAnd l r = Inr (js_and l r)"
| "first_switch h LogicalOr l r = Inr (js_or l r)"
| "first_switch h NullishCoalescing l r = Inr (js_nullish_coalesce l r)"
| "first_switch h op l r = Inr VUndef"

text \<open>
  The test before the second \<open>switch\<close>, negated: both operands are numbers, bigints or
  strings, and of the same \<open>typeof\<close>.
\<close>

definition homogeneous :: "host \<Rightarrow> val \<Rightarrow> val \<Rightarrow> bool" where
  "homogeneous h l r \<longleftrightarrow>
     \<not> ((js_typeof h l \<noteq> ''number'' \<and> js_typeof h l \<noteq> ''bigint''
           \<and> js_typeof h l \<noteq> ''string'')
        \<or> (js_typeof h r \<noteq> ''number'' \<and> js_typeof h r \<noteq> ''bigint''
           \<and> js_typeof h r \<noteq> ''string'')
        \<or> js_typeof h l \<noteq> js_typeof h r)"

definition is_arith :: "binop \<Rightarrow> bool" where
  "is_arith op \<longleftrightarrow>
     op \<in> {LShift, RShift, ZeroFillRShift, Add, Sub, Mul, Div, Mod, Exp,
           BitOr, BitXor, BitAnd}"

text \<open>The second \<open>switch\<close>: its \<open>default\<close> throws \<open>Unknown binary operator\<close>.\<close>

definition second_switch :: "host \<Rightarrow> binop \<Rightarrow> val \<Rightarrow> val \<Rightarrow> error + val" where
  "second_switch h op l r =
     (if is_arith op then js_arith h op l r else Inl UnknownBinaryOperator)"

text \<open>The \<open>BinaryExpression\<close> case from the first \<open>switch\<close> on, for two operand values.\<close>

definition fold_binary :: "host \<Rightarrow> binop \<Rightarrow> val \<Rightarrow> val \<Rightarrow> span \<Rightarrow> error + res" where
  "fold_binary h op l r sp =
     (case first_switch h op l r of
        Inl e \<Rightarrow> Inl e
      | Inr result \<Rightarrow>
          if result \<noteq> VUndef then Inr (Static result sp)
          else if \<not> homogeneous h l r then Inr (Static VUndef sp)
          else (case second_switch h op l r of
                  Inl e \<Rightarrow> Inl e
                | Inr v \<Rightarrow> Inr (Static v sp)))"

definition static_value :: "res \<Rightarrow> val option" where
  "static_value r = (case r of Static v s \<Rightarrow> Some v | _ \<Rightarrow> None)"

text \<open>
  The head of the \<open>BinaryExpression\<close> case, after both operands are folded: non-static
  when an operand is non-static or a symbolic reference (\<open>"id" in left\<close>).
\<close>

definition binary_result :: "host \<Rightarrow> binop \<Rightarrow> res \<Rightarrow> res \<Rightarrow> span \<Rightarrow> error + res" where
  "binary_result h op left right sp =
     (if left = NonStatic \<or> right = NonStatic then Inr NonStatic
      else case static_value left of
             None \<Rightarrow> Inr NonStatic
           | Some lv \<Rightarrow>
               (case static_value right of
                  None \<Rightarrow> Inr NonStatic
                | Some rv \<Rightarrow> fold_binary h op lv rv sp))"

text \<open>
  The \<open>switch\<close> of the \<open>UnaryExpression\<close> case, on an operand value that is neither
  \<open>null\<close> nor \<open>undefined\<close>. Only \<open>+\<close> runs inside \<open>try\<close>. The operator type is closed,
  so the \<open>default\<close> branch (\<open>Unknown unary operator\<close>) has no input.
\<close>

fun fold_unary :: "host \<Rightarrow> unop \<Rightarrow> val \<Rightarrow> span \<Rightarrow> error + res" where
  "fold_unary h Plus v sp =
     (case to_number h v of
        Inl e \<Rightarrow> Inr (Static VUndef sp)
      | Inr n \<Rightarrow> Inr (Static (VNum n) sp))"
| "fold_unary h Minus v sp =
     (case to_numeric h v of
        Inl e \<Rightarrow> Inl e
      | Inr (VBigInt i) \<Rightarrow> Inr (Static (VBigInt (- i)) sp)
      | Inr (VNum n) \<Rightarrow> Inr (Static (VNum (num_neg n)) sp)
      | Inr x \<Rightarrow> Inl TypeError)"
| "fold_unary h Bang v sp = Inr (Static (VBool (\<not> truthy v)) sp)"
| "fold_unary h Tilde v sp =
     (case to_numeric h v of
        Inl e \<Rightarrow> Inl e
      | Inr (VBigInt i) \<Rightarrow> Inr (Static (VBigInt (- i - 1)) sp)
      | Inr (VNum n) \<Rightarrow> Inr (Static (VNum (Fin (of_int (- to_int32 n - 1)))) sp)
      | Inr x \<Rightarrow> Inl TypeError)"
| "fold_unary h TypeOf v sp = Inr (Static (VStr (js_typeof h v)) sp)"
| "fold_unary h Void v sp = Inr (Static VUndef sp)"
| "fold_unary h Delete v sp = Inr NonStatic"

definition unary_result :: "host \<Rightarrow> unop \<Rightarrow> res \<Rightarrow> span \<Rightarrow> error + res" where
  "unary_result h op result sp =
     (case static_value result of
        None \<Rightarrow> Inr NonStatic
      | Some v \<Rightarrow> if nullish v then Inr (Static VUndef sp) else fold_unary h op v sp)"

subsection \<open>Identifiers, members, containers and templates\<close>

definition eval_identifier :: "string \<Rightarrow> span \<Rightarrow> res" where
  "eval_identifier name sp =
     (if name = ''undefined'' then Static VUndef sp else StaticId name sp)"

text \<open>\<open>node.cooked || node.raw\<close>: an absent or empty cooked text gives way to the raw one.\<close>

definition eval_template_element :: "tpl_elem \<Rightarrow> res" where
  "eval_template_element q =
     Static (VStr (case cooked q of
                     None \<Rightarrow> raw q
                   | Some c \<Rightarrow> if c \<noteq> [] then c else raw q))
            (tpl_span q)"

fun identifier_name :: "expr \<Rightarrow> string option" where
  "identifier_name (Identifier name sp) = Some name"
| "identifier_name e = None"

text \<open>
  The test of the \<open>CallExpression\<close> case: the callee is \<open>ns.firstThatWorks\<close> for a verified
  namespace identifier \<open>ns\<close>, or an identifier verified as the named import
  \<open>firstThatWorks\<close>.
\<close>

definition is_first_that_works :: "state_manager \<Rightarrow> expr \<Rightarrow> bool" where
  "is_first_that_works sm callee \<longleftrightarrow>
     (case callee of
        MemberExpression obj prp sp \<Rightarrow>
          (case identifier_name obj of
             None \<Rightarrow> False
           | Some name \<Rightarrow> verifyStylexIdentifier sm name
                          \<and> identifier_name prp = Some ''firstThatWorks'')
      | _ \<Rightarrow> False)
     \<or> (case identifier_name callee of
           None \<Rightarrow> False
         | Some name \<Rightarrow> verifyNamedImport sm name = Some ''firstThatWorks'')"

text \<open>
  The tail of the \<open>MemberExpression\<close> case, for a static object and a static property.
  The key is the property's \<open>id\<close> or its \<open>value\<close>. A symbolic object extends its path by
  the text of the key; a value is read with the key when the key is a string.
\<close>

definition fold_member :: "host \<Rightarrow> res \<Rightarrow> res \<Rightarrow> span \<Rightarrow> error + res" where
  "fold_member h obj prp sp =
     (let propertyKey =
            (case prp of StaticId i s \<Rightarrow> VStr i | Static v s \<Rightarrow> v | NonStatic \<Rightarrow> VUndef)
      in case obj of
           StaticId i s \<Rightarrow>
             (case to_string h propertyKey of
                Inl e \<Rightarrow> Inl e
              | Inr k \<Rightarrow> Inr (StaticId (i @ ''.'' @ k) sp))
         | Static v s \<Rightarrow>
             (if nullish v then Inr (Static v sp)
              else case propertyKey of
                     VStr k \<Rightarrow>
                       (case js_get h v k of
                          Inl e \<Rightarrow> Inl e
                        | Inr x \<Rightarrow> Inr (Static x sp))
                   | _ \<Rightarrow> Inr (Static VUndef sp))
         | NonStatic \<Rightarrow> Inr NonStatic)"

text \<open>
  One step of the \<open>reduce\<close> of \<open>processArrayExpression\<close>, after the element is folded.
  For a spread element the code pushes the result when it is not static, and then pushes
  \<open>...(cond ? result : [result])\<close>, where \<open>cond\<close> asks whether \<open>result\<close> is an array or has
  an iterator. \<open>result\<close> is a result object, which is neither, so exactly \<open>result\<close> is
  pushed again.
\<close>

definition push_element :: "bool \<Rightarrow> res \<Rightarrow> res list \<Rightarrow> res list" where
  "push_element spread result accumulator =
     (if spread
      then (if result = NonStatic then accumulator @ [result] else accumulator) @ [result]
      else accumulator @ [result])"

text \<open>
  A spread property: a result without \<open>value\<close> (a symbolic reference) or a non-static one
  leaves the accumulator as it is, a static value is merged with \<open>Object.assign\<close>.
\<close>

definition spread_into :: "accumulator \<Rightarrow> res \<Rightarrow> accumulator" where
  "spread_into accumulator result =
     (case result of
        Static v s \<Rightarrow> object_assign accumulator v
      | _ \<Rightarrow> accumulator)"

text \<open>
  The key of a key-value property: the folded key must have a \<open>value\<close> that is a string
  or a number (a number names the property by its text).
\<close>

definition property_key :: "host \<Rightarrow> res \<Rightarrow> string option" where
  "property_key h keyVal =
     (case static_value keyVal of
        Some (VStr k) \<Rightarrow> Some k
      | Some (VNum n) \<Rightarrow> Some (num_to_str h n)
      | _ \<Rightarrow> None)"

text \<open>What an embedded expression of a template contributes; \<open>None\<close> ends the loop.\<close>

definition template_piece :: "res \<Rightarrow> val option" where
  "template_piece result =
     (case result of
        NonStatic \<Rightarrow> None
      | StaticId i s \<Rightarrow> Some (VStr (''var(--'' @ i @ '')''))
      | Static v s \<Rightarrow> Some v)"

definition template_result :: "host \<Rightarrow> error + val list option \<Rightarrow> span \<Rightarrow> error + res" where
  "template_result h loop sp =
     (case loop of
        Inl e \<Rightarrow> Inl e
      | Inr None \<Rightarrow> Inr NonStatic
      | Inr (Some values) \<Rightarrow>
          (case js_join h values of
             Inl e \<Rightarrow> Inl e
           | Inr s \<Rightarrow> Inr (Static (VStr s) sp)))"

definition array_result :: "error + res list \<Rightarrow> span \<Rightarrow> error + res" where
  "array_result elems sp =
     (case elems of Inl e \<Rightarrow> Inl e | Inr result \<Rightarrow> Inr (Static (VArr result) sp))"

text \<open>\<open>result.value = result.value.reverse()\<close>.\<close>

definition reversed :: "error + res \<Rightarrow> error + res" where
  "reversed result =
     (case result of
        Inr (Static (VArr vs) sp) \<Rightarrow> Inr (Static (VArr (rev vs)) sp)
      | other \<Rightarrow> other)"

definition object_result :: "error + accumulator \<Rightarrow> span \<Rightarrow> error + res" where
  "object_result props sp =
     (case props of
        Inl e \<Rightarrow> Inl e
      | Inr result \<Rightarrow> Inr (Static (VObj (fst result) (snd result)) sp))"

subsection \<open>\<open>evaluate\<close>\<close>

text \<open>
  \<open>evaluate\<close>, one equation for each \<open>case\<close> of its \<open>switch\<close>, with the loops it runs:
  \<^item> \<open>processArrayElements\<close> is the \<open>reduce\<close> of \<open>processArrayExpression\<close> (a hole is
    skipped);
  \<^item> \<open>evaluateProperties\<close> is the \<open>reduce\<close> of the \<open>ObjectExpression\<close> case;
  \<^item> \<open>templateLoop\<close> is the \<open>while\<close> loop of the \<open>TemplateLiteral\<close> case: the flag is
    \<open>currentQuasi\<close>, the two lists are the quasis and the expressions from the current
    indices on, and \<open>None\<close> is the early non-static return;
  \<^item> \<open>evaluateLast\<close> folds the last expression of a sequence; reading the \<open>type\<close> of the
    missing last element of an empty sequence is a \<open>TypeError\<close>.
  An exception leaves every enclosing call, so an \<open>Inl\<close> is handed on unchanged.
\<close>

function (sequential)
  evaluate :: "state_manager \<Rightarrow> host \<Rightarrow> expr \<Rightarrow> error + res"
and processArrayElements ::
  "state_manager \<Rightarrow> host \<Rightarrow> (bool \<times> expr) option list \<Rightarrow> res list \<Rightarrow> error + res list"
and evaluateProperties ::
  "state_manager \<Rightarrow> host \<Rightarrow> property list \<Rightarrow> accumulator \<Rightarrow> error + accumulator"
and templateLoop ::
  "state_manager \<Rightarrow> host \<Rightarrow> bool \<Rightarrow> tpl_elem list \<Rightarrow> expr list \<Rightarrow> val list
     \<Rightarrow> error + val list option"
and evaluateLast :: "state_manager \<Rightarrow> host \<Rightarrow> expr list \<Rightarrow> error + res"
where
  "evaluate sm h (StringLiteral s sp) = Inr (Static (VStr s) sp)"
| "evaluate sm h (NumericLiteral n sp) = Inr (Static (VNum n) sp)"
| "evaluate sm h (BooleanLiteral b sp) = Inr (Static (VBool b) sp)"
| "evaluate sm h (BigIntLiteral i sp) = Inr (Static (VBigInt i) sp)"
| "evaluate sm h (NullLiteral sp) = Inr (Static VNull sp)"
| "evaluate sm h (RegExpLiteral pattern flags sp) =
     (if regexp_rejected h pattern flags then Inl SyntaxError
      else Inr (Static (VRegExp pattern flags) sp))"
| "evaluate sm h (Invalid sp) = Inl InvalidExpression"
| "evaluate sm h (Identifier name sp) = Inr (eval_identifier name sp)"
| "evaluate sm h (ArrayExpression elements sp) =
     array_result (processArrayElements sm h elements []) sp"
| "evaluate sm h (ObjectExpression properties sp) =
     object_result (evaluateProperties sm h properties (None, [])) sp"
| "evaluate sm h (AwaitExpression argument) =
     (case evaluate sm h argument of
        Inl e \<Rightarrow> Inl e
      | Inr result \<Rightarrow> if result = NonStatic then Inr NonStatic else Inr result)"
| "evaluate sm h (BinaryExpression op left right sp) =
     (case evaluate sm h left of
        Inl e \<Rightarrow> Inl e
      | Inr l \<Rightarrow>
          (case evaluate sm h right of
             Inl e \<Rightarrow> Inl e
           | Inr r \<Rightarrow> binary_result h op l r sp))"
| "evaluate sm h (TsWrapper kind expression) = evaluate sm h expression"
| "evaluate sm h (ParenthesisExpression expression) = evaluate sm h expression"
| "evaluate sm h (UnaryExpression op argument sp) =
     (case evaluate sm h argument of
        Inl e \<Rightarrow> Inl e
      | Inr result \<Rightarrow> unary_result h op result sp)"
| "evaluate sm h (AssignmentExpression right) = evaluate sm h right"
| "evaluate sm h (ConditionalExpression test consequent alternate) =
     (case evaluate sm h test of
        Inl e \<Rightarrow> Inl e
      | Inr t \<Rightarrow>
          (case static_value t of
             None \<Rightarrow> Inr NonStatic
           | Some v \<Rightarrow>
               if truthy v then evaluate sm h consequent else evaluate sm h alternate))"
| "evaluate sm h (TemplateLiteral expressions None sp) = Inr NonStatic"
| "evaluate sm h (TemplateLiteral None (Some quasis) sp) =
     template_result h (templateLoop sm h True quasis [] []) sp"
| "evaluate sm h (TemplateLiteral (Some expressions) (Some quasis) sp) =
     template_result h (templateLoop sm h True quasis expressions []) sp"
| "evaluate sm h (TemplateElement q) = Inr (eval_template_element q)"
| "evaluate sm h (CallExpression callee arguments sp) =
     (if is_first_that_works sm callee
      then reversed (array_result (processArrayElements sm h arguments []) sp)
      else Inr NonStatic)"
| "evaluate sm h (Computed expression) = evaluate sm h expression"
| "evaluate sm h (MemberExpression obj prp sp) =
     (case evaluate sm h obj of
        Inl e \<Rightarrow> Inl e
      | Inr object \<Rightarrow>
          if object = NonStatic then Inr NonStatic
          else (case evaluate sm h prp of
                  Inl e \<Rightarrow> Inl e
                | Inr property \<Rightarrow>
                    if property = NonStatic then Inr NonStatic
                    else fold_member h object property sp))"
| "evaluate sm h (PrivateName ident) = evaluate sm h ident"
| "evaluate sm h (SequenceExpression expressions) = evaluateLast sm h expressions"
| "evaluate sm h (Other kind) = Inr NonStatic"

| "processArrayElements sm h [] accumulator = Inr accumulator"
| "processArrayElements sm h (None # rest) accumulator =
     processArrayElements sm h rest accumulator"
| "processArrayElements sm h (Some (spread, expression) # rest) accumulator =
     (case evaluate sm h expression of
        Inl e \<Rightarrow> Inl e
      | Inr result \<Rightarrow>
          processArrayElements sm h rest (push_element spread result accumulator))"

| "evaluateProperties sm h [] accumulator = Inr accumulator"
| "evaluateProperties sm h (SpreadElement arguments # rest) accumulator =
     (case evaluate sm h arguments of
        Inl e \<Rightarrow> Inl e
      | Inr result \<Rightarrow> evaluateProperties sm h rest (spread_into accumulator result))"
| "evaluateProperties sm h (KeyValueProperty key value # rest) accumulator =
     (case evaluate sm h key of
        Inl e \<Rightarrow> Inl e
      | Inr keyVal \<Rightarrow>
          (case property_key h keyVal of
             None \<Rightarrow> evaluateProperties sm h rest accumulator
           | Some k \<Rightarrow>
               (case evaluate sm h value of
                  Inl e \<Rightarrow> Inl e
                | Inr result \<Rightarrow>
                    evaluateProperties sm h rest (set_prop accumulator k (VRes result)))))"
| "evaluateProperties sm h (AssignmentProperty key value # rest) accumulator =
     (case evaluate sm h key of
        Inl e \<Rightarrow> Inl e
      | Inr keyVal \<Rightarrow>
          (case property_key h keyVal of
             None \<Rightarrow> evaluateProperties sm h rest accumulator
           | Some k \<Rightarrow>
               (case evaluate sm h value of
                  Inl e \<Rightarrow> Inl e
                | Inr result \<Rightarrow>
                    evaluateProperties sm h rest (set_prop accumulator k (VRes result)))))"
| "evaluateProperties sm h (GetterProperty # rest) accumulator =
     evaluateProperties sm h rest accumulator"
| "evaluateProperties sm h (SetterProperty # rest) accumulator =
     evaluateProperties sm h rest accumulator"
| "evaluateProperties sm h (MethodProperty # rest) accumulator =
     evaluateProperties sm h rest accumulator"
| "evaluateProperties sm h (PropIdentifier name sp # rest) accumulator =
     evaluateProperties sm h rest (set_prop accumulator name (VRes (eval_identifier name sp)))"

| "templateLoop sm h True [] expressions values = Inr (Some values)"
| "templateLoop sm h True (q # quasis) expressions values =
     (case static_value (eval_template_element q) of
        None \<Rightarrow> Inr None
      | Some v \<Rightarrow> templateLoop sm h False quasis expressions (values @ [v]))"
| "templateLoop sm h False quasis [] values = Inr (Some values)"
| "templateLoop sm h False quasis (x # expressions) values =
     (case evaluate sm h x of
        Inl e \<Rightarrow> Inl e
      | Inr result \<Rightarrow>
          (case template_piece result of
             None \<Rightarrow> Inr None
           | Some v \<Rightarrow> templateLoop sm h True quasis expressions (values @ [v])))"

| "evaluateLast sm h [] = Inl TypeError"
| "evaluateLast sm h [x] = evaluate sm h x"
| "evaluateLast sm h (x # y # rest) = evaluateLast sm h (y # rest)"
  by pat_completeness auto

termination
  by (relation "measure
        (case_sum
          (case_sum (\<lambda>(sm, h, e). 2 * size e)
                    (\<lambda>(sm, h, els, acc).
                        2 * size_list (size_option (size_prod (\<lambda>_. 0) size)) els))
          (case_sum (\<lambda>(sm, h, ps, acc). 2 * size_list size ps)
             (case_sum (\<lambda>(sm, h, b, qs, es, vs). 2 * size_list size es + (if b then 1 else 0))
                       (\<lambda>(sm, h, es). 2 * size_list size es))))")
     simp_all

text \<open>\<open>processArrayExpression\<close> as a function of its own.\<close>

definition processArrayExpression ::
  "state_manager \<Rightarrow> host \<Rightarrow> (bool \<times> expr) option list \<Rightarrow> span \<Rightarrow> error + res" where
  "processArrayExpression sm h elements sp =
     array_result (processArrayElements sm h elements []) sp"

section \<open>Colour values\<close>

text \<open>
  \<open>color-logic.ts\<close>. The strings are sequences of code units below 256. White space
  (\<open>trim\<close>, and \<open>\s\<close> in a regular expression) is then the tab, the line feed, the
  vertical tab, the form feed, the carriage return, the space and the no-break space;
  \<open>toLowerCase\<close> moves \<open>A\<close> to \<open>Z\<close> and the capital letters of the upper half up by
  32, which sets the bit of that weight (it is clear in all of them).
\<close>

definition is_space :: "char \<Rightarrow> bool" where
  "is_space c \<longleftrightarrow> (of_char c :: nat) \<in> {9, 10, 11, 12, 13, 32, 160}"

definition js_trim :: "string \<Rightarrow> string" where
  "js_trim s = rev (dropWhile is_space (rev (dropWhile is_space s)))"

definition lower_char :: "char \<Rightarrow> char" where
  "lower_char c =
     (let n = (of_char c :: nat)
      in if (65 \<le> n \<and> n \<le> 90) \<or> (192 \<le> n \<and> n \<le> 222 \<and> n \<noteq> 215)
         then (case c of Char b0 b1 b2 b3 b4 b5 b6 b7 \<Rightarrow> Char b0 b1 b2 b3 b4 True b6 b7)
         else c)"

definition js_lower :: "string \<Rightarrow> string" where
  "js_lower s = map lower_char s"

text \<open>
  \<^verbatim>\<open>/^\s*(?:rgba?|hsla?)\s*\([^)]+\)\s*$/\<close>. Every repetition is followed by something it
  cannot match itself, so the greedy reading is the only one.
\<close>

definition after_function_name :: "string \<Rightarrow> string option" where
  "after_function_name s =
     (if take 3 s = ''rgb'' \<or> take 3 s = ''hsl''
      then Some (case drop 3 s of c # t \<Rightarrow> if c = CHR ''a'' then t else c # t | [] \<Rightarrow> [])
      else None)"

definition matches_functional :: "string \<Rightarrow> bool" where
  "matches_functional s \<longleftrightarrow>
     (case after_function_name (dropWhile is_space s) of
        None \<Rightarrow> False
      | Some t \<Rightarrow>
          (case dropWhile is_space t of
             [] \<Rightarrow> False
           | c # u \<Rightarrow>
               c = CHR ''('' \<and> takeWhile (\<lambda>x. x \<noteq> CHR '')'') u \<noteq> []
               \<and> (case dropWhile (\<lambda>x. x \<noteq> CHR '')'') u of
                     [] \<Rightarrow> False
                   | d # w \<Rightarrow> dropWhile is_space w = [])))"

text \<open>\<^verbatim>\<open>/^\s*#[0-9a-f]+\s*$/i\<close>.\<close>

definition is_hex :: "char \<Rightarrow> bool" where
  "is_hex c \<longleftrightarrow> c \<in> set ''0123456789abcdefABCDEF''"

definition matches_hex :: "string \<Rightarrow> bool" where
  "matches_hex s \<longleftrightarrow>
     (case dropWhile is_space s of
        [] \<Rightarrow> False
      | c # t \<Rightarrow>
          c = CHR ''#'' \<and> takeWhile is_hex t \<noteq> []
          \<and> dropWhile is_space (dropWhile is_hex t) = [])"

datatype 'c color_result = Keyword string | Parsed 'c | Null

text \<open>
  \<open>getColorFromValue\<close>. The names of the \<open>color-name\<close> package and \<open>culori.parse\<close> belong to
  other packages and are parameters; \<open>parse\<close> answers \<open>None\<close> for \<open>undefined\<close>.
\<close>

definition getColorFromValue ::
  "string list \<Rightarrow> (string \<Rightarrow> 'c option) \<Rightarrow> val \<Rightarrow> 'c color_result" where
  "getColorFromValue namedColors parse v =
     (case v of
        VStr s \<Rightarrow>
          (let trimmedValue = js_trim s in
           if js_lower trimmedValue = ''transparent'' then Keyword ''transparent''
           else if js_lower trimmedValue = ''currentcolor'' then Keyword ''currentColor''
           else if \<not> matches_functional trimmedValue \<and> \<not> matches_hex trimmedValue
                   \<and> trimmedValue \<notin> set namedColors
           then Null
           else (case parse trimmedValue of None \<Rightarrow> Null | Some color \<Rightarrow> Parsed color))
      | _ \<Rightarrow> Null)"

section \<open>Notions used to state the properties\<close>



text \<open>
  Taking turns, first list first, until the list whose turn it is has run out: the order
  in which the template loop visits quasis and expressions.
\<close>

fun alternate :: "'a list \<Rightarrow> 'a list \<Rightarrow> 'a list" where
  "alternate [] ys = []"
| "alternate (x # xs) [] = [x]"
| "alternate (x # xs) (y # ys) = x # y # alternate xs ys"

definition quasi_text :: "tpl_elem \<Rightarrow> val" where
  "quasi_text q = VStr (case cooked q of
                          None \<Rightarrow> raw q
                        | Some c \<Rightarrow> if c \<noteq> [] then c else raw q)"



text \<open>
  Inputs for the examples: a span, a state manager that knows no import, one that knows
  the namespace \<open>stylex\<close> and the named import \<open>firstThatWorks\<close>, and a host whose
  parameters answer nothing (the examples never ask them).
\<close>

definition sp0 :: span where
  "sp0 = \<lparr>span_start = 0, span_end = 0, ctxt = 0\<rparr>"

definition no_imports :: state_manager where
  "no_imports = \<lparr>verifyStylexIdentifier = (\<lambda>name. False),
                 verifyNamedImport = (\<lambda>name. None)\<rparr>"

definition stylex_imports :: state_manager where
  "stylex_imports =
     \<lparr>verifyStylexIdentifier = (\<lambda>name. name = ''stylex''),
      verifyNamedImport =
        (\<lambda>name. if name = ''firstThatWorks'' then Some ''firstThatWorks'' else None)\<rparr>"

definition silent_host :: host where
  "silent_host =
     \<lparr>num_binop = (\<lambda>op a b. NaN),
      str_to_num = (\<lambda>s. NaN),
      num_to_str = (\<lambda>n. []),
      str_to_bigint = (\<lambda>s. None),
      regexp_rejected = (\<lambda>p f. False),
      regexp_to_str = (\<lambda>p f. []),
      proto_get = (\<lambda>v k. Inr VUndef),
      proto_has = (\<lambda>v k. False),
      host_callable = (\<lambda>n. False),
      host_to_prim = (\<lambda>v. Inl TypeError),
      host_instanceof = (\<lambda>v n. Inl TypeError)\<rparr>"

text \<open>
  A host that knows two facts of the real one: the \<open>constructor\<close> of a string is a
  built-in function (handle 0), and reading \<open>caller\<close> of a built-in function runs the
  accessor of \<open>Function.prototype\<close>, which throws a \<open>TypeError\<close>.
\<close>

definition builtin_host :: host where
  "builtin_host =
     silent_host
       \<lparr>proto_get :=
          (\<lambda>v k. case v of
                    VStr s \<Rightarrow> if k = ''constructor'' then Inr (VHost 0) else Inr VUndef
                  | VHost n \<Rightarrow> if k = ''caller'' then Inl TypeError else Inr VUndef
                  | _ \<Rightarrow> Inr VUndef),
        host_callable := (\<lambda>n. True)\<rparr>"

section \<open>Properties of the wildcard handler\<close>

text \<open>
  C8. In the hover walk and in the completion walk alike, the skip condition of the
  wildcard handler asks the cursor offset to lie strictly before the adjusted start of
  the node and strictly after its adjusted end. No offset does when the span's start
  does not exceed its end, whatever the module offset: the handler then never returns
  \<open>false\<close>, so it prunes nothing.
\<close>

theorem star_handler_never_skips:
  assumes "span_ordered node"
  shows "hover_star paramByte moduleStart node = ReturnUndefined
       \<and> completion_star paramByte moduleStart node = ReturnUndefined
       \<and> (\<forall>sp. node_span node = Some sp \<longrightarrow> \<not> star_skip paramByte moduleStart sp)"
  using assms
  by (auto simp: span_ordered_def hover_star_def completion_star_def star_skip_def
           split: option.splits)

theorem star_handler_never_skips_witness:
  "span_ordered \<lparr>node_type = ''CallExpression'',
                 node_span = Some \<lparr>span_start = 10, span_end = 20, ctxt = 0\<rparr>\<rparr>
   \<and> hover_star 5 0 \<lparr>node_type = ''CallExpression'',
                 node_span = Some \<lparr>span_start = 10, span_end = 20, ctxt = 0\<rparr>\<rparr> = ReturnUndefined
   \<and> completion_star 25 0 \<lparr>node_type = ''CallExpression'',
                 node_span = Some \<lparr>span_start = 10, span_end = 20, ctxt = 0\<rparr>\<rparr> = ReturnUndefined"
proof -
  let ?n = "\<lparr>node_type = ''CallExpression'',
             node_span = Some \<lparr>span_start = 10, span_end = 20, ctxt = 0\<rparr>\<rparr>"
  have h: "span_ordered ?n" by (simp add: span_ordered_def)
  from star_handler_never_skips [OF h, of 5 0] star_handler_never_skips [OF h, of 25 0] h
  show ?thesis by simp
qed

section \<open>Properties of binary expressions\<close>

lemma typeof_number: "js_typeof h v = ''number'' \<longleftrightarrow> type_of v = TNumber"
  by (cases v) auto

lemma typeof_bigint: "js_typeof h v = ''bigint'' \<longleftrightarrow> type_of v = TBigInt"
  by (cases v) auto

lemma typeof_string: "js_typeof h v = ''string'' \<longleftrightarrow> type_of v = TString"
  by (cases v) auto

lemma homogeneous_iff:
  "homogeneous h l r \<longleftrightarrow>
     type_of l = type_of r \<and> type_of l \<in> {TNumber, TBigInt, TString}"
proof -
  have a: "type_of v \<in> {TNumber, TBigInt, TString} \<Longrightarrow>
           js_typeof h v = (if type_of v = TNumber then ''number''
                            else if type_of v = TBigInt then ''bigint'' else ''string'')" for v
    by (cases v) auto
  show ?thesis
    unfolding homogeneous_def typeof_number typeof_bigint typeof_string
    using a [of l] a [of r] by (auto split: if_splits)
qed

lemma evaluate_binary_static:
  assumes "evaluate sm h left = Inr (Static lv ls)"
      and "evaluate sm h right = Inr (Static rv rs)"
  shows "evaluate sm h (BinaryExpression op left right sp) = fold_binary h op lv rv sp"
  using assms by (simp add: binary_result_def static_value_def)

lemma first_switch_arith: "is_arith op \<Longrightarrow> first_switch h op l r = Inr VUndef"
  by (cases op) (simp_all add: is_arith_def)

text \<open>
  C4. A binary expression with a bit, shift or arithmetic operator whose operands fold to
  static values that are not both numbers, both bigints or both strings folds to the
  static value \<open>undefined\<close> with the span of the node; nothing is raised.
\<close>

theorem mismatched_operands_fold_to_undefined:
  assumes "evaluate sm h left = Inr (Static lv ls)"
      and "evaluate sm h right = Inr (Static rv rs)"
      and "is_arith op"
      and "\<not> (type_of lv = type_of rv \<and> type_of lv \<in> {TNumber, TBigInt, TString})"
  shows "evaluate sm h (BinaryExpression op left right sp) = Inr (Static VUndef sp)"
proof -
  have "evaluate sm h (BinaryExpression op left right sp) = fold_binary h op lv rv sp"
    by (rule evaluate_binary_static [OF assms(1,2)])
  also have "\<dots> = Inr (Static VUndef sp)"
    using assms(3,4) by (simp add: fold_binary_def first_switch_arith homogeneous_iff)
  finally show ?thesis .
qed

theorem mismatched_operands_fold_to_undefined_witness:
  "evaluate no_imports silent_host (NumericLiteral (Fin 1) sp0) = Inr (Static (VNum (Fin 1)) sp0)
   \<and> evaluate no_imports silent_host (StringLiteral ''a'' sp0) = Inr (Static (VStr ''a'') sp0)
   \<and> is_arith Add
   \<and> \<not> (type_of (VNum (Fin 1)) = type_of (VStr ''a'')
         \<and> type_of (VNum (Fin 1)) \<in> {TNumber, TBigInt, TString})
   \<and> evaluate no_imports silent_host
        (BinaryExpression Add (NumericLiteral (Fin 1) sp0) (StringLiteral ''a'' sp0) sp0)
      = Inr (Static VUndef sp0)"
proof -
  have l: "evaluate no_imports silent_host (NumericLiteral (Fin 1) sp0)
           = Inr (Static (VNum (Fin 1)) sp0)" by simp
  have r: "evaluate no_imports silent_host (StringLiteral ''a'' sp0)
           = Inr (Static (VStr ''a'') sp0)" by simp
  have a: "is_arith Add" by (simp add: is_arith_def)
  have t: "\<not> (type_of (VNum (Fin 1)) = type_of (VStr ''a'')
              \<and> type_of (VNum (Fin 1)) \<in> {TNumber, TBigInt, TString})" by simp
  from mismatched_operands_fold_to_undefined [OF l r a t, of sp0] l r a t
  show ?thesis by blast
qed









text \<open>The host's answer at that input does not depend on the host parameters.\<close>

lemma null_less_than_one: "js_lt h VNull (VNum (Fin 1)) = Inr True"
  by (simp add: js_lt_def is_less_than_def prim_less_than_def rank_lt_def)

section \<open>Properties of arrays, objects and the fallback call\<close>























text \<open>
  A key-value property whose key is a plain identifier: the folded key is a symbolic
  reference, which has no \<open>value\<close>, so the code skips the property and its value is not
  folded at all. \<open>{a: new X()}\<close> folds to the empty object.
\<close>

lemma identifier_key_contributes_nothing:
  "evaluate sm h (ObjectExpression [KeyValueProperty (Identifier ''a'' s1) (Other NewExpression)] sp)
   = Inr (Static (VObj None []) sp)"
  by (simp add: object_result_def property_key_def static_value_def eval_identifier_def)




text \<open>
  Arguments (or elements) none of which is a spread of a non-static value contribute one
  entry each, in order.
\<close>

lemma process_arguments:
  assumes "list_all2 (\<lambda>a r. evaluate sm h (snd a) = Inr r \<and> (fst a \<longrightarrow> r \<noteq> NonStatic)) args rs"
  shows "processArrayElements sm h (map Some args) acc = Inr (acc @ rs)"
  using assms
proof (induction args rs arbitrary: acc rule: list_all2_induct)
  case Nil
  then show ?case by simp
next
  case (Cons a args r rs)
  obtain spread e where a: "a = (spread, e)" by (cases a)
  with Cons.hyps have "push_element spread r acc = acc @ [r]"
    by (auto simp: push_element_def)
  with Cons a show ?case by simp
qed

text \<open>
  What does hold of the fallback call: when no argument is a spread of a non-static
  value and every argument folds to a result, the call folds to the results in reversed
  order; three plain arguments \<open>a\<close>, \<open>b\<close>, \<open>c\<close> give the results of \<open>c\<close>, \<open>b\<close>, \<open>a\<close>.
\<close>

lemma first_that_works_reverses:
  assumes "is_first_that_works sm callee"
      and "list_all2 (\<lambda>a r. evaluate sm h (snd a) = Inr r \<and> (fst a \<longrightarrow> r \<noteq> NonStatic)) args rs"
  shows "evaluate sm h (CallExpression callee (map Some args) sp) = Inr (Static (VArr (rev rs)) sp)"
  using assms(1) process_arguments [OF assms(2), of "[]"]
  by (simp add: array_result_def reversed_def)

lemma first_that_works_three_plain_arguments:
  assumes "is_first_that_works sm callee"
      and "evaluate sm h a = Inr ra" "evaluate sm h b = Inr rb" "evaluate sm h c = Inr rc"
  shows "evaluate sm h (CallExpression callee [Some (False, a), Some (False, b), Some (False, c)] sp)
         = Inr (Static (VArr [rc, rb, ra]) sp)"
  using assms by (simp add: array_result_def reversed_def push_element_def)

text \<open>
  C1. The specification has a spread of a static iterable flattened into the array and a
  spread of a non-static value kept as one entry. The code tests the result object, not
  its value, for being iterable, and pushes a non-static result twice. So
  \<open>[1, ...(true ? [2, 3] : [4]), 5]\<close> folds to three entries, the second being the
  array \<open>[2, 3]\<close> itself, and with the symbolic test \<open>cond\<close> (the conditional is then
  non-static) to four entries, two of them the non-static result.
\<close>

theorem spread_element_not_flattened:
  "evaluate sm h
     (ArrayExpression
        [Some (False, NumericLiteral (Fin 1) s1),
         Some (True, ConditionalExpression (BooleanLiteral True s2)
            (ArrayExpression [Some (False, NumericLiteral (Fin 2) s3),
                              Some (False, NumericLiteral (Fin 3) s4)] s5)
            (ArrayExpression [Some (False, NumericLiteral (Fin 4) s6)] s7)),
         Some (False, NumericLiteral (Fin 5) s8)] sp)
   = Inr (Static (VArr [Static (VNum (Fin 1)) s1,
                        Static (VArr [Static (VNum (Fin 2)) s3, Static (VNum (Fin 3)) s4]) s5,
                        Static (VNum (Fin 5)) s8]) sp)
   \<and> evaluate sm h
     (ArrayExpression
        [Some (False, NumericLiteral (Fin 1) s1),
         Some (True, ConditionalExpression (Identifier ''cond'' s2)
            (ArrayExpression [Some (False, NumericLiteral (Fin 2) s3),
                              Some (False, NumericLiteral (Fin 3) s4)] s5)
            (ArrayExpression [Some (False, NumericLiteral (Fin 4) s6)] s7)),
         Some (False, NumericLiteral (Fin 5) s8)] sp)
   = Inr (Static (VArr [Static (VNum (Fin 1)) s1, NonStatic, NonStatic,
                        Static (VNum (Fin 5)) s8]) sp)"
  by (simp add: array_result_def push_element_def static_value_def eval_identifier_def)

theorem spread_element_not_flattened_witness:
  "evaluate no_imports silent_host
     (ArrayExpression
        [Some (False, NumericLiteral (Fin 1) sp0),
         Some (True, ConditionalExpression (BooleanLiteral True sp0)
            (ArrayExpression [Some (False, NumericLiteral (Fin 2) sp0),
                              Some (False, NumericLiteral (Fin 3) sp0)] sp0)
            (ArrayExpression [Some (False, NumericLiteral (Fin 4) sp0)] sp0)),
         Some (False, NumericLiteral (Fin 5) sp0)] sp0)
   = Inr (Static (VArr [Static (VNum (Fin 1)) sp0,
                        Static (VArr [Static (VNum (Fin 2)) sp0, Static (VNum (Fin 3)) sp0]) sp0,
                        Static (VNum (Fin 5)) sp0]) sp0)
   \<and> evaluate no_imports silent_host
     (ArrayExpression
        [Some (False, NumericLiteral (Fin 1) sp0),
         Some (True, ConditionalExpression (Identifier ''cond'' sp0)
            (ArrayExpression [Some (False, NumericLiteral (Fin 2) sp0),
                              Some (False, NumericLiteral (Fin 3) sp0)] sp0)
            (ArrayExpression [Some (False, NumericLiteral (Fin 4) sp0)] sp0)),
         Some (False, NumericLiteral (Fin 5) sp0)] sp0)
   = Inr (Static (VArr [Static (VNum (Fin 1)) sp0, NonStatic, NonStatic,
                        Static (VNum (Fin 5)) sp0]) sp0)"
  by (rule spread_element_not_flattened)

text \<open>
  C5. The specification has the fallback call fold to its arguments' results in reversed
  order. A spread argument whose value is non-static is pushed twice before the
  reversal, so the call \<open>firstThatWorks(...f())\<close> folds to two entries for its one
  argument, and \<open>stylex.firstThatWorks("a", ...f())\<close> to three for its two.
\<close>

theorem first_that_works_duplicates_spread:
  "evaluate stylex_imports h
     (CallExpression (Identifier ''firstThatWorks'' s1)
        [Some (True, CallExpression (Identifier ''f'' s2) [] s3)] sp)
   = Inr (Static (VArr [NonStatic, NonStatic]) sp)
   \<and> evaluate stylex_imports h
     (CallExpression
        (MemberExpression (Identifier ''stylex'' s1) (Identifier ''firstThatWorks'' s4) s5)
        [Some (False, StringLiteral ''a'' s6),
         Some (True, CallExpression (Identifier ''f'' s2) [] s3)] sp)
   = Inr (Static (VArr [NonStatic, NonStatic, Static (VStr ''a'') s6]) sp)"
  by (simp add: array_result_def push_element_def reversed_def is_first_that_works_def
        stylex_imports_def)

theorem first_that_works_duplicates_spread_witness:
  "evaluate stylex_imports silent_host
     (CallExpression (Identifier ''firstThatWorks'' sp0)
        [Some (True, CallExpression (Identifier ''f'' sp0) [] sp0)] sp0)
   = Inr (Static (VArr [NonStatic, NonStatic]) sp0)
   \<and> evaluate stylex_imports silent_host
     (CallExpression
        (MemberExpression (Identifier ''stylex'' sp0) (Identifier ''firstThatWorks'' sp0) sp0)
        [Some (False, StringLiteral ''a'' sp0),
         Some (True, CallExpression (Identifier ''f'' sp0) [] sp0)] sp0)
   = Inr (Static (VArr [NonStatic, NonStatic, Static (VStr ''a'') sp0]) sp0)"
  by (rule first_that_works_duplicates_spread)

section \<open>Exceptions that leave the evaluator\<close>

text \<open>
  C2. The specification has \<open>evaluate\<close> raise for an \<open>Invalid\<close> node only. The second
  \<open>switch\<close> of the binary case and the \<open>-\<close> case of the unary one apply the host's
  operator outside any \<open>try\<close>: a bigint division or remainder by \<open>0n\<close> and a negative
  bigint exponent throw a \<open>RangeError\<close>, \<open>>>>\<close> on bigints throws a \<open>TypeError\<close>, and so
  does negating a folded object that has an own \<open>toString\<close> entry. Each exception
  leaves \<open>evaluate\<close>.
\<close>

theorem operator_folding_raises:
  "evaluate sm h (BinaryExpression Div (BigIntLiteral a s1) (BigIntLiteral 0 s2) sp)
     = Inl RangeError
   \<and> evaluate sm h (BinaryExpression Mod (BigIntLiteral a s1) (BigIntLiteral 0 s2) sp)
     = Inl RangeError
   \<and> evaluate sm h (BinaryExpression Exp (BigIntLiteral a s1) (BigIntLiteral (- 1) s2) sp)
     = Inl RangeError
   \<and> evaluate sm h (BinaryExpression ZeroFillRShift (BigIntLiteral a s1) (BigIntLiteral b s2) sp)
     = Inl TypeError
   \<and> evaluate sm h
        (UnaryExpression Minus
           (ObjectExpression
              [KeyValueProperty (StringLiteral ''toString'' s1) (NumericLiteral (Fin 1) s2)] s3)
           sp)
     = Inl TypeError"
  by (simp add: binary_result_def static_value_def fold_binary_def homogeneous_def
        second_switch_def is_arith_def js_arith_def unary_result_def object_result_def
        property_key_def set_prop_def to_numeric_def is_host_def)

theorem operator_folding_raises_witness:
  "evaluate no_imports silent_host
     (BinaryExpression Div (BigIntLiteral 1 sp0) (BigIntLiteral 0 sp0) sp0) = Inl RangeError
   \<and> evaluate no_imports silent_host
     (BinaryExpression Mod (BigIntLiteral 1 sp0) (BigIntLiteral 0 sp0) sp0) = Inl RangeError
   \<and> evaluate no_imports silent_host
     (BinaryExpression Exp (BigIntLiteral 1 sp0) (BigIntLiteral (- 1) sp0) sp0) = Inl RangeError
   \<and> evaluate no_imports silent_host
     (BinaryExpression ZeroFillRShift (BigIntLiteral 1 sp0) (BigIntLiteral 1 sp0) sp0)
     = Inl TypeError
   \<and> evaluate no_imports silent_host
        (UnaryExpression Minus
           (ObjectExpression
              [KeyValueProperty (StringLiteral ''toString'' sp0) (NumericLiteral (Fin 1) sp0)]
              sp0)
           sp0)
     = Inl TypeError"
  by (rule operator_folding_raises)

text \<open>Apart from such exceptions, \<open>evaluate\<close> is total: it is a function of the logic.\<close>

section \<open>Properties of template literals\<close>

lemma alternate_Cons: "alternate (x # xs) ys = x # alternate ys xs"
proof (induction "length xs + length ys" arbitrary: x xs ys rule: less_induct)
  case less
  show ?case
  proof (cases ys)
    case Nil
    then show ?thesis by simp
  next
    case (Cons y ys')
    have "alternate (y # ys') xs = y # alternate xs ys'"
      by (rule less) (simp add: Cons)
    with Cons show ?thesis by simp
  qed
qed

text \<open>
  When every embedded expression folds to a static result, the loop ends with the quasi
  texts and the expressions' pieces taking turns, from either state of its flag.
\<close>

lemma template_loop_alternates:
  assumes "list_all2 (\<lambda>e v. \<exists>r. evaluate sm h e = Inr r \<and> template_piece r = Some v) es vs"
  shows "templateLoop sm h True qs es acc = Inr (Some (acc @ alternate (map quasi_text qs) vs))
       \<and> templateLoop sm h False qs es acc = Inr (Some (acc @ alternate vs (map quasi_text qs)))"
  using assms
proof (induction es vs arbitrary: qs acc rule: list_all2_induct)
  case Nil
  show ?case
    by (cases qs)
       (simp_all add: static_value_def eval_template_element_def quasi_text_def)
next
  case (Cons e es v vs)
  from Cons.hyps obtain r where r: "evaluate sm h e = Inr r" "template_piece r = Some v"
    by blast
  have f: "templateLoop sm h False qs (e # es) acc
             = Inr (Some (acc @ alternate (v # vs) (map quasi_text qs)))" for qs acc
    using r Cons.IH [of qs "acc @ [v]"] by (simp add: alternate_Cons)
  have t: "templateLoop sm h True qs (e # es) acc
             = Inr (Some (acc @ alternate (map quasi_text qs) (v # vs)))"
  proof (cases qs)
    case Nil
    then show ?thesis by simp
  next
    case (Cons q qs')
    then show ?thesis
      using f [of qs' "acc @ [quasi_text q]"]
      by (simp add: static_value_def eval_template_element_def quasi_text_def alternate_Cons)
  qed
  from f t show ?case by blast
qed

text \<open>
  What does hold of a template literal: when every embedded expression folds to a static
  result and the host can join the pieces, the literal folds to the joined text, where a
  symbolic reference \<open>I\<close> contributes \<open>var(--I)\<close>.
\<close>

lemma template_literal_interleaves:
  assumes "list_all2 (\<lambda>e v. \<exists>r. evaluate sm h e = Inr r \<and> template_piece r = Some v) es vs"
      and "js_join h (alternate (map quasi_text qs) vs) = Inr s"
  shows "evaluate sm h (TemplateLiteral (Some es) (Some qs) sp) = Inr (Static (VStr s) sp)"
  using template_loop_alternates [OF assms(1), of qs "[]"] assms(2)
  by (simp add: template_result_def)

lemma template_symbolic_reference:
  "evaluate sm h
     (TemplateLiteral (Some [Identifier ''color'' s1])
        (Some [TplElem (Some []) [] s2, TplElem (Some ''px'') ''px'' s3]) sp)
   = Inr (Static (VStr ''var(--color)px'') sp)"
  by (simp add: template_result_def template_piece_def eval_identifier_def static_value_def
        eval_template_element_def to_string_def)

text \<open>
  C6. The specification has every template literal with static quasis and expressions
  fold to the interleaved string. The pieces are joined by \<open>values.join("")\<close> outside any
  \<open>try\<close>, and the host cannot convert a folded object that has an own \<open>toString\<close> entry:
  for the literal \<open>${ {"toString": 1} }px\<close>, whose expression folds to a static object,
  the \<open>TypeError\<close> of the conversion leaves \<open>evaluate\<close>.
\<close>

theorem template_literal_raises:
  "evaluate sm h
     (TemplateLiteral
        (Some [ObjectExpression
                 [KeyValueProperty (StringLiteral ''toString'' s1) (NumericLiteral (Fin 1) s2)]
                 s3])
        (Some [TplElem (Some []) [] s4, TplElem (Some ''px'') ''px'' s5]) sp)
   = Inl TypeError
   \<and> evaluate sm h
        (ObjectExpression
           [KeyValueProperty (StringLiteral ''toString'' s1) (NumericLiteral (Fin 1) s2)] s3)
     = Inr (Static (VObj None [(''toString'', VRes (Static (VNum (Fin 1)) s2))]) s3)"
  by (simp add: template_result_def template_piece_def static_value_def
        eval_template_element_def object_result_def property_key_def set_prop_def
        to_string_def is_host_def)

theorem template_literal_raises_witness:
  "evaluate no_imports silent_host
     (TemplateLiteral
        (Some [ObjectExpression
                 [KeyValueProperty (StringLiteral ''toString'' sp0) (NumericLiteral (Fin 1) sp0)]
                 sp0])
        (Some [TplElem (Some []) [] sp0, TplElem (Some ''px'') ''px'' sp0]) sp0)
   = Inl TypeError
   \<and> evaluate no_imports silent_host
        (ObjectExpression
           [KeyValueProperty (StringLiteral ''toString'' sp0) (NumericLiteral (Fin 1) sp0)] sp0)
     = Inr (Static (VObj None [(''toString'', VRes (Static (VNum (Fin 1)) sp0))]) sp0)"
  by (rule template_literal_raises)

section \<open>Properties of member expressions\<close>

text \<open>
  What does hold of a member expression whose object folds to a static value \<open>v\<close> and
  whose property folds to a static key: the value is \<open>v\<close> itself when \<open>v\<close> is \<open>null\<close> or
  \<open>undefined\<close>, \<open>undefined\<close> when the key is not a string, and otherwise what the host's
  property read gives, an exception of the read included. A read of an own property
  returns, so \<open>"abc".length\<close> folds to 3; \<open>"abc".constructor\<close> is whatever the host has
  there.
\<close>

lemma member_read_folds:
  assumes "evaluate sm h obj = Inr (Static v s1)"
      and "evaluate sm h prp = Inr p" and "p \<noteq> NonStatic"
  shows "evaluate sm h (MemberExpression obj prp sp) =
     (if nullish v then Inr (Static v sp)
      else case (case p of StaticId i s \<Rightarrow> VStr i | Static kv s \<Rightarrow> kv | NonStatic \<Rightarrow> VUndef) of
             VStr k \<Rightarrow> map_sum id (\<lambda>x. Static x sp) (js_get h v k)
           | _ \<Rightarrow> Inr (Static VUndef sp))"
  using assms
  by (cases p) (auto simp: fold_member_def split: val.splits sum.splits)

lemma own_read_returns: "own_get v k = Some x \<Longrightarrow> js_get h v k = Inr x"
  by (simp add: js_get_def)

lemma string_length_folds:
  "evaluate sm h (MemberExpression (StringLiteral ''abc'' s1) (Identifier ''length'' s2) sp)
   = Inr (Static (VNum (Fin 3)) sp)"
  by (simp add: fold_member_def eval_identifier_def js_get_def length_val_def)

lemma string_constructor_is_hosts:
  "evaluate sm h (MemberExpression (StringLiteral ''abc'' s1) (Identifier ''constructor'' s2) sp)
   = map_sum id (\<lambda>x. Static x sp) (proto_get h (VStr ''abc'') ''constructor'')"
  by (cases "proto_get h (VStr ''abc'') ''constructor''")
     (simp_all add: fold_member_def eval_identifier_def js_get_def inherited_get_def
        index_of_key_def digits.simps)

text \<open>
  C9. The claim has a member expression on a static value never throw. The read
  \<open>object.value[propertyKey]\<close> stands outside any \<open>try\<close>, and the values reachable
  through it include the host's built-in functions, on which reading \<open>caller\<close> runs a
  throwing accessor. On a host where the \<open>constructor\<close> of a string is such a function,
  \<open>"abc".constructor.caller\<close> has an object that folds to a static value and a static
  string key, and the \<open>TypeError\<close> of the read leaves \<open>evaluate\<close>.
\<close>

theorem member_read_raises:
  assumes "proto_get h (VStr ''abc'') ''constructor'' = Inr (VHost n)"
      and "proto_get h (VHost n) ''caller'' = Inl TypeError"
  shows "evaluate sm h
           (MemberExpression (StringLiteral ''abc'' s1) (Identifier ''constructor'' s2) s3)
         = Inr (Static (VHost n) s3)
       \<and> evaluate sm h (Identifier ''caller'' s4) = Inr (StaticId ''caller'' s4)
       \<and> evaluate sm h
           (MemberExpression
              (MemberExpression (StringLiteral ''abc'' s1) (Identifier ''constructor'' s2) s3)
              (Identifier ''caller'' s4) s5)
         = Inl TypeError"
  using assms
  by (simp add: eval_identifier_def fold_member_def js_get_def inherited_get_def
        index_of_key_def digits.simps)

theorem member_read_raises_witness:
  "proto_get builtin_host (VStr ''abc'') ''constructor'' = Inr (VHost 0)
   \<and> proto_get builtin_host (VHost 0) ''caller'' = Inl TypeError
   \<and> evaluate no_imports builtin_host
        (MemberExpression
           (MemberExpression (StringLiteral ''abc'' sp0) (Identifier ''constructor'' sp0) sp0)
           (Identifier ''caller'' sp0) sp0)
      = Inl TypeError"
proof -
  have a: "proto_get builtin_host (VStr ''abc'') ''constructor'' = Inr (VHost 0)"
    by (simp add: builtin_host_def silent_host_def)
  have b: "proto_get builtin_host (VHost 0) ''caller'' = Inl TypeError"
    by (simp add: builtin_host_def silent_host_def)
  from member_read_raises [OF a b, of no_imports sp0 sp0 sp0 sp0 sp0] a b
  show ?thesis by blast
qed

section \<open>Properties of the colour values\<close>

lemma trim_example: "js_trim '' Transparent  '' = ''Transparent''"
  by (simp add: js_trim_def is_space_def)

lemma hex_example: "matches_hex ''#FFaa00'' \<and> \<not> matches_hex ''#ggg'' \<and> \<not> matches_hex ''12px''"
  by (simp add: matches_hex_def is_hex_def is_space_def)

lemma functional_example:
  "matches_functional ''rgba(1, 2, 3)'' \<and> matches_functional ''hsl (1 2 3) ''
   \<and> \<not> matches_functional ''rgb()'' \<and> \<not> matches_functional ''rgbx(1)''
   \<and> \<not> matches_functional ''12px''"
  by (simp add: matches_functional_def after_function_name_def is_space_def)

text \<open>
  C10. \<open>getColorFromValue\<close> answers \<open>null\<close> for every value that is not a string; the
  keyword \<open>transparent\<close> or \<open>currentColor\<close> for a string whose trimmed form is that word
  in any letter case; and, for any other string whose trimmed form matches neither the
  functional pattern nor the hex pattern and is no known colour name, \<open>null\<close>, whatever
  the parser would say (it is not consulted).
\<close>

theorem color_from_value_cases:
  "(type_of v \<noteq> TString \<longrightarrow> getColorFromValue names parse v = Null)
   \<and> (js_lower (js_trim s) = ''transparent'' \<longrightarrow>
        getColorFromValue names parse (VStr s) = Keyword ''transparent'')
   \<and> (js_lower (js_trim s) = ''currentcolor'' \<longrightarrow>
        getColorFromValue names parse (VStr s) = Keyword ''currentColor'')
   \<and> (js_lower (js_trim s) \<noteq> ''transparent'' \<longrightarrow> js_lower (js_trim s) \<noteq> ''currentcolor'' \<longrightarrow>
        \<not> matches_functional (js_trim s) \<longrightarrow> \<not> matches_hex (js_trim s) \<longrightarrow>
        js_trim s \<notin> set names \<longrightarrow>
        getColorFromValue names parse (VStr s) = Null)"
  by (cases v) (simp_all add: getColorFromValue_def Let_def)

theorem color_from_value_cases_witness:
  "getColorFromValue [''red''] (\<lambda>s. Some s) (VNum (Fin 1)) = Null
   \<and> getColorFromValue [''red''] (\<lambda>s. Some s) (VStr '' Transparent  '') = Keyword ''transparent''
   \<and> getColorFromValue [''red''] (\<lambda>s. Some s) (VStr ''CurrentColor'') = Keyword ''currentColor''
   \<and> getColorFromValue [''red''] (\<lambda>s. Some s) (VStr ''12px'') = Null"
proof -
  have a: "js_lower (js_trim '' Transparent  '') = ''transparent''"
    by (simp add: js_trim_def is_space_def js_lower_def lower_char_def)
  have b: "js_lower (js_trim ''CurrentColor'') = ''currentcolor''"
    by (simp add: js_trim_def is_space_def js_lower_def lower_char_def)
  have t: "js_trim ''12px'' = ''12px''"
    by (simp add: js_trim_def is_space_def)
  have c: "js_lower (js_trim ''12px'') \<noteq> ''transparent''"
          "js_lower (js_trim ''12px'') \<noteq> ''currentcolor''"
          "\<not> matches_functional (js_trim ''12px'')" "\<not> matches_hex (js_trim ''12px'')"
          "js_trim ''12px'' \<notin> set [''red'']"
    unfolding t
    by (simp_all add: js_lower_def lower_char_def matches_functional_def
          after_function_name_def matches_hex_def is_space_def)
  from color_from_value_cases [of "VNum (Fin 1)" "[''red'']" "\<lambda>s. Some s" "'' Transparent  ''"]
       color_from_value_cases [of "VNull" "[''red'']" "\<lambda>s. Some s" "''CurrentColor''"]
       color_from_value_cases [of "VNull" "[''red'']" "\<lambda>s. Some s" "''12px''"]
       a b c
  show ?thesis by simp
qed

end
